theory Spec2Isabelle
  imports Complex_Main
begin

section \<open>Numbers and strings of the dashboard\<close>

text \<open>
  The two pages under verification are \<^verbatim>\<open>client/src/pages/network-topology.tsx\<close> and
  \<^verbatim>\<open>client/src/pages/change-management.tsx\<close>. A JavaScript \<^verbatim>\<open>number\<close> that
  carries a coordinate, a width or the zoom factor is modelled as a \<^typ>\<open>real\<close>; every
  expression keeps the order of operations of the source. Identifiers (\<^verbatim>\<open>id\<close>,
  \<^verbatim>\<open>siteId\<close>, \<^verbatim>\<open>parentDeviceId\<close>) are integers and are modelled as
  \<^typ>\<open>int\<close>. A JavaScript string is a \<^typ>\<open>string\<close>.
\<close>

subsection \<open>Zoom (network-topology.tsx, lines 175 and 221-227)\<close>

text \<open>\<^verbatim>\<open>const [zoom, setZoom] = useState(1)\<close>\<close>

definition initialZoom :: real where
  "initialZoom = 1"

text \<open>\<^verbatim>\<open>setZoom(prev => Math.min(prev + 0.1, 2))\<close>\<close>

definition handleZoomIn :: "real \<Rightarrow> real" where
  "handleZoomIn prev = min (prev + 0.1) 2"

text \<open>\<^verbatim>\<open>setZoom(prev => Math.max(prev - 0.1, 0.5))\<close>\<close>

definition handleZoomOut :: "real \<Rightarrow> real" where
  "handleZoomOut prev = max (prev - 0.1) 0.5"

datatype zoom_action = ZoomIn | ZoomOut

fun zoom_step :: "real \<Rightarrow> zoom_action \<Rightarrow> real" where
  "zoom_step z ZoomIn = handleZoomIn z"
| "zoom_step z ZoomOut = handleZoomOut z"

text \<open>The zoom after a sequence of clicks, oldest first.\<close>

definition zoom_after :: "zoom_action list \<Rightarrow> real" where
  "zoom_after acts = foldl zoom_step initialZoom acts"

subsection \<open>Number to string\<close>

text \<open>
  \<^verbatim>\<open>Number.prototype.toString()\<close> on an integer: its decimal digits, with a leading
  minus sign below zero. It is used for \<^verbatim>\<open>device.siteId.toString()\<close> and inside the
  template literals that build element keys.
\<close>

fun natToString :: "nat \<Rightarrow> string" where
  "natToString n =
     (if n < 10 then [''0123456789'' ! n]
      else natToString (n div 10) @ [''0123456789'' ! (n mod 10)])"

declare natToString.simps [simp del]

definition numberToString :: "int \<Rightarrow> string" where
  "numberToString i =
     (if i < 0 then CHR ''-'' # natToString (nat (- i)) else natToString (nat i))"

section \<open>Network topology page\<close>

subsection \<open>Data (the types imported from the shared schema, as the page uses them)\<close>

text \<open>
  \<^verbatim>\<open>Device\<close> and \<^verbatim>\<open>Site\<close> are imported from \<^verbatim>\<open>@shared/schema\<close>; the fields are the
  ones the page reads (they are listed again by the interface \<^verbatim>\<open>DeviceDetails\<close>, lines
  153-168). A field \<^verbatim>\<open>f\<close> of \<^verbatim>\<open>Device\<close> is \<open>device_f\<close> here, a field of
  \<^verbatim>\<open>Site\<close> is \<open>site_f\<close>; \<^verbatim>\<open>T | null\<close> is an option.
\<close>

record Device =
  device_id :: int
  device_name :: string
  device_type :: string
  device_deviceRole :: "string option"
  device_parentDeviceId :: "int option"
  device_ipAddress :: "string option"
  device_vlan :: "string option"
  device_operatingSystem :: "string option"
  device_services :: "string option"
  device_status :: string
  device_siteId :: int

record Site =
  site_id :: int
  site_name :: string

subsection \<open>Filtering (lines 190-203)\<close>

text \<open>
  \<^verbatim>\<open>devices?.filter(device => { ... return siteMatch && typeMatch; })\<close>. The query
  result \<^verbatim>\<open>devices\<close> is \<^verbatim>\<open>undefined\<close> until it has loaded, and then so is
  \<^verbatim>\<open>filteredDevices\<close>: \<open>None\<close>.
\<close>

definition filteredDevices :: "string \<Rightarrow> string \<Rightarrow> Device list option \<Rightarrow> Device list option" where
  "filteredDevices selectedSite selectedDeviceType devices =
     map_option (filter (\<lambda>device.
        let siteMatch = (selectedSite = ''all''
                          \<or> numberToString (device_siteId device) = selectedSite);
            typeMatch = (selectedDeviceType = ''all''
                          \<or> device_type device = selectedDeviceType)
        in siteMatch \<and> typeMatch)) devices"

text \<open>
  \<^verbatim>\<open>filteredDevices?.filter(d => d.type === 'firewall' || ...) || []\<close> and
  \<^verbatim>\<open>filteredDevices?.filter(d => d.type === 'server') || []\<close>
\<close>

definition networkDevices :: "Device list option \<Rightarrow> Device list" where
  "networkDevices filtered =
     (case filtered of
        None \<Rightarrow> []
      | Some ds \<Rightarrow> filter (\<lambda>d. device_type d = ''firewall'' \<or> device_type d = ''switch''
                              \<or> device_type d = ''router'') ds)"

definition serverDevices :: "Device list option \<Rightarrow> Device list" where
  "serverDevices filtered =
     (case filtered of
        None \<Rightarrow> []
      | Some ds \<Rightarrow> filter (\<lambda>d. device_type d = ''server'') ds)"

text \<open>
  The filter as the specification words it: a device is kept when its site equals the
  selected site and its type equals the selected type, where the selection \<open>all\<close>
  switches the respective test off.
\<close>

definition spec_device_selected :: "string \<Rightarrow> string \<Rightarrow> Device \<Rightarrow> bool" where
  "spec_device_selected S T d \<longleftrightarrow>
     (S = ''all'' \<or> numberToString (device_siteId d) = S)
     \<and> (T = ''all'' \<or> device_type d = T)"

subsection \<open>Rendered output\<close>

text \<open>
  The JSX a render function returns: an element with its tag, its attributes in source
  order and its children, or a text child. A child \<^verbatim>\<open>{cond && <circle ... />}\<close> whose
  condition is false renders nothing and is left out of the children. The attribute
  \<^verbatim>\<open>d\<close> of a path is built by a template literal; it is kept as the list of its
  drawing commands (\<^verbatim>\<open>M x,y\<close> and \<^verbatim>\<open>C x1,y1 x2,y2 x,y\<close>) with their numbers. A
  click handler \<^verbatim>\<open>() => handleDeviceClick(device)\<close> is kept as the device it passes.
\<close>

datatype path_cmd = MoveTo real real | CurveTo real real real real real real

datatype attr = Num real | Str string | OnClick Device | PathData "path_cmd list"

datatype jsx = Element string "(string \<times> attr) list" "jsx list" | TextNode string

fun element_children :: "jsx \<Rightarrow> jsx list" where
  "element_children (Element tag attrs cs) = cs"
| "element_children (TextNode t) = []"

fun attr_of :: "string \<Rightarrow> jsx \<Rightarrow> attr option" where
  "attr_of a (Element tag attrs cs) = map_of attrs a"
| "attr_of a (TextNode t) = None"

subsection \<open>The layout engine (lines 13-151)\<close>

text \<open>
  \<^verbatim>\<open>interface DeviceNode extends Device { children?: DeviceNode[] }\<close> and
  \<^verbatim>\<open>interface TopologyNode { id; name; type; devices?: DeviceNode[] }\<close>
\<close>

datatype DeviceNode =
  DeviceNode (node_device: Device) (node_children: "DeviceNode list option")

record TopologyNode =
  topo_id :: int
  topo_name :: string
  topo_type :: string
  topo_devices :: "DeviceNode list option"

text \<open>Lines 34-58: the pair \<^verbatim>\<open>(fill, stroke)\<close> after the chain of assignments.\<close>

definition deviceColors :: "Device \<Rightarrow> string \<times> string" where
  "deviceColors device =
     (if device_type device = ''firewall'' then (''#FEF3C7'', ''#FF832B'')
      else if device_type device = ''router'' then (''#D1FAE5'', ''#42BE65'')
      else if device_type device = ''server'' then
        (if device_status device = ''critical'' \<or> device_status device = ''down''
           then (''#FEE2E2'', ''#FF0000'')
         else if device_status device = ''warning'' then (''#FEF3C7'', ''#FF832B'')
         else if device_status device = ''secure'' \<or> device_status device = ''compliant''
           then (''#D1FAE5'', ''#42BE65'')
         else (''#CCE0FF'', ''#0F62FE''))
      else (''#E0E7FF'', ''#6366F1''))"

text \<open>Lines 62-66.\<close>

definition nodeWidth :: "Device \<Rightarrow> real" where
  "nodeWidth device = (if device_type device = ''server'' then 50 else 60)"

definition nodeHeight :: real where
  "nodeHeight = 40"

definition verticalSpacing :: real where
  "verticalSpacing = 70"

text \<open>Lines 72-108: the group \<^verbatim>\<open><g key={`device-${device.id}`}>\<close> pushed first.\<close>

definition deviceNodeElement :: "Device \<Rightarrow> real \<Rightarrow> real \<Rightarrow> jsx" where
  "deviceNodeElement device x y =
     (let (fill, stroke) = deviceColors device in
      Element ''g'' [(''key'', Str (''device-'' @ numberToString (device_id device)))]
        ([ Element ''rect''
             [(''x'', Num x), (''y'', Num y), (''width'', Num (nodeWidth device)),
              (''height'', Num nodeHeight), (''rx'', Num 5), (''fill'', Str fill),
              (''stroke'', Str stroke), (''strokeWidth'', Num 2),
              (''className'', Str ''device-node''), (''onClick'', OnClick device)] [],
           Element ''circle''
             [(''cx'', Num (x + nodeWidth device / 2)), (''cy'', Num y), (''r'', Num 3),
              (''fill'', Str stroke)] [],
           Element ''text''
             [(''x'', Num (x + nodeWidth device / 2)), (''y'', Num (y + 24)),
              (''textAnchor'', Str ''middle''), (''className'', Str ''text-xs font-medium'')]
             [TextNode (if length (device_name device) > 6
                        then take 5 (device_name device) @ ''...''
                        else device_name device)] ]
         @ (if device_status device = ''critical'' \<or> device_status device = ''down''
            then [Element ''circle''
                    [(''cx'', Num (x + nodeWidth device / 2)), (''cy'', Num (y - 10)),
                     (''r'', Num 5), (''fill'', Str ''#FF0000''),
                     (''className'', Str ''animate-pulse''), (''opacity'', Num 0.6)] []]
            else [])
         @ (if device_status device = ''warning''
            then [Element ''circle''
                    [(''cx'', Num (x + nodeWidth device / 2)), (''cy'', Num (y - 10)),
                     (''r'', Num 5), (''fill'', Str ''#FF832B''),
                     (''className'', Str ''animate-pulse''), (''opacity'', Num 0.6)] []]
            else [])))"

text \<open>
  \<^verbatim>\<open>renderDeviceHierarchy\<close> pushes the device's node and then, in the
  \<^verbatim>\<open>forEach\<close> over the children (lines 116-147), for each child the connector path
  and the child's own hierarchy. \<open>forEachChild\<close> is that loop from position \<open>index\<close>
  on; it is given what the loop body reads of its surroundings. The callback
  \<^verbatim>\<open>handleDeviceClick\<close> is only stored in the rectangle's \<^verbatim>\<open>onClick\<close>.
\<close>

fun renderDeviceHierarchy :: "DeviceNode \<Rightarrow> real \<Rightarrow> real \<Rightarrow> nat \<Rightarrow> real \<Rightarrow> jsx"
and forEachChild ::
  "DeviceNode list \<Rightarrow> nat \<Rightarrow> Device \<Rightarrow> real \<Rightarrow> real \<Rightarrow> nat \<Rightarrow> real \<Rightarrow> nat \<Rightarrow> jsx list"
where
  "renderDeviceHierarchy (DeviceNode device children) x y level availableWidth =
     Element ''g'' [(''key'', Str (''hierarchy-'' @ numberToString (device_id device)))]
       (deviceNodeElement device x y
        # (case children of
             None \<Rightarrow> []
           | Some cs \<Rightarrow>
               if length cs > 0
               then forEachChild cs 0 device x y level availableWidth (length cs)
               else []))"
| "forEachChild [] index device x y level availableWidth childrenCount = []"
| "forEachChild (child # rest) index device x y level availableWidth childrenCount =
     (let childWidth = availableWidth / real childrenCount;
          childX = x - (availableWidth / 2) + (childWidth * real index) + (childWidth / 2) - 25;
          childY = y + verticalSpacing;
          connPath = [MoveTo (x + nodeWidth device / 2) (y + nodeHeight),
                      CurveTo (x + nodeWidth device / 2) (y + nodeHeight + 20)
                              (childX + 25) (childY - 20)
                              (childX + 25) childY]
      in [ Element ''path''
             [(''key'', Str (''conn-'' @ numberToString (device_id device) @ ''-''
                             @ numberToString (device_id (node_device child)))),
              (''d'', PathData connPath), (''fill'', Str ''none''),
              (''stroke'', Str ''#9CA3AF''), (''strokeWidth'', Num 2)] [],
           renderDeviceHierarchy child childX childY (level + 1) (childWidth - 10) ]
         @ forEachChild rest (index + 1) device x y level availableWidth childrenCount)"

subsection \<open>The tier icons and site areas of the diagram (lines 344-560)\<close>

text \<open>
  The label of a tier icon:
  \<^verbatim>\<open>device.name.length > 10 ? device.name.substring(0, 8) + '...' : device.name\<close>
\<close>

definition tierLabel :: "Device \<Rightarrow> string" where
  "tierLabel device =
     (if length (device_name device) > 10 then take 8 (device_name device) @ ''...''
      else device_name device)"

text \<open>Lines 346-388: the body of the \<^verbatim>\<open>map\<close> over the firewalls.\<close>

definition renderFirewall :: "Device \<Rightarrow> jsx" where
  "renderFirewall device =
     (let x = 370; y = 120 in
      Element ''g'' [(''key'', Str (''firewall-'' @ numberToString (device_id device)))]
        [ Element ''rect''
            [(''x'', Num x), (''y'', Num y), (''width'', Num 60), (''height'', Num 40),
             (''rx'', Num 5), (''fill'', Str ''#FEF3C7''), (''stroke'', Str ''#FF832B''),
             (''strokeWidth'', Num 2), (''className'', Str ''device-node''),
             (''onClick'', OnClick device)] [],
          Element ''circle''
            [(''cx'', Num (x + 30)), (''cy'', Num y), (''r'', Num 3),
             (''fill'', Str ''#FF832B'')] [],
          Element ''circle''
            [(''cx'', Num (x + 20)), (''cy'', Num (y + 40)), (''r'', Num 3),
             (''fill'', Str ''#FF832B'')] [],
          Element ''circle''
            [(''cx'', Num (x + 40)), (''cy'', Num (y + 40)), (''r'', Num 3),
             (''fill'', Str ''#FF832B'')] [],
          Element ''text''
            [(''x'', Num (x + 40)), (''y'', Num (y + 5)), (''textAnchor'', Str ''start''),
             (''className'', Str ''text-[8px]'')] [TextNode ''WAN''],
          Element ''text''
            [(''x'', Num (x + 15)), (''y'', Num (y + 35)), (''textAnchor'', Str ''middle''),
             (''className'', Str ''text-[8px]'')] [TextNode ''LAN1''],
          Element ''text''
            [(''x'', Num (x + 45)), (''y'', Num (y + 35)), (''textAnchor'', Str ''middle''),
             (''className'', Str ''text-[8px]'')] [TextNode ''LAN2''],
          Element ''text''
            [(''x'', Num (x + 30)), (''y'', Num (y + 24)), (''textAnchor'', Str ''middle''),
             (''className'', Str ''text-xs font-medium'')] [TextNode (tierLabel device)] ])"

text \<open>Lines 394-429: the body of the \<^verbatim>\<open>map\<close> over the routers.\<close>

definition renderRouter :: "Device \<Rightarrow> jsx" where
  "renderRouter device =
     (let x = 370; y = 190 in
      Element ''g'' [(''key'', Str (''router-'' @ numberToString (device_id device)))]
        [ Element ''rect''
            [(''x'', Num x), (''y'', Num y), (''width'', Num 60), (''height'', Num 40),
             (''rx'', Num 5), (''fill'', Str ''#D1FAE5''), (''stroke'', Str ''#42BE65''),
             (''strokeWidth'', Num 2), (''className'', Str ''device-node''),
             (''onClick'', OnClick device)] [],
          Element ''circle''
            [(''cx'', Num (x + 30)), (''cy'', Num y), (''r'', Num 3),
             (''fill'', Str ''#42BE65'')] [],
          Element ''circle''
            [(''cx'', Num x), (''cy'', Num (y + 20)), (''r'', Num 3),
             (''fill'', Str ''#42BE65'')] [],
          Element ''circle''
            [(''cx'', Num (x + 60)), (''cy'', Num (y + 20)), (''r'', Num 3),
             (''fill'', Str ''#42BE65'')] [],
          Element ''text''
            [(''x'', Num (x + 30)), (''y'', Num (y + 24)), (''textAnchor'', Str ''middle''),
             (''className'', Str ''text-xs font-medium'')] [TextNode (tierLabel device)] ])"

text \<open>
  Lines 435-479: the body of the \<^verbatim>\<open>map\<close> over the switches;
  \<^verbatim>\<open>sites?.find(s => s.id === device.siteId)\<close> chooses the column.
\<close>

definition renderSwitch :: "Site list option \<Rightarrow> Device \<Rightarrow> jsx" where
  "renderSwitch sites device =
     (let site = (case sites of
                    None \<Rightarrow> None
                  | Some ss \<Rightarrow> find (\<lambda>s. site_id s = device_siteId device) ss);
          x = (case site of
                 None \<Rightarrow> 200
               | Some s \<Rightarrow> if site_id s \<noteq> 1 then 570 else 200);
          y = 320
      in
      Element ''g'' [(''key'', Str (''switch-'' @ numberToString (device_id device)))]
        [ Element ''rect''
            [(''x'', Num x), (''y'', Num y), (''width'', Num 60), (''height'', Num 40),
             (''rx'', Num 5), (''fill'', Str ''#E0E7FF''), (''stroke'', Str ''#6366F1''),
             (''strokeWidth'', Num 2), (''className'', Str ''device-node''),
             (''onClick'', OnClick device)] [],
          Element ''circle''
            [(''cx'', Num (x + 30)), (''cy'', Num y), (''r'', Num 3),
             (''fill'', Str ''#6366F1'')] [],
          Element ''circle''
            [(''cx'', Num (x + 15)), (''cy'', Num (y + 40)), (''r'', Num 3),
             (''fill'', Str ''#6366F1'')] [],
          Element ''circle''
            [(''cx'', Num (x + 30)), (''cy'', Num (y + 40)), (''r'', Num 3),
             (''fill'', Str ''#6366F1'')] [],
          Element ''circle''
            [(''cx'', Num (x + 45)), (''cy'', Num (y + 40)), (''r'', Num 3),
             (''fill'', Str ''#6366F1'')] [],
          Element ''text''
            [(''x'', Num (x + 30)), (''y'', Num (y + 24)), (''textAnchor'', Str ''middle''),
             (''className'', Str ''text-xs font-medium'')] [TextNode (tierLabel device)] ])"

text \<open>
  Lines 511-560: the body of the \<^verbatim>\<open>map\<close> over the topology's sites, given the pair
  of the index and the site. An absent \<^verbatim>\<open>site.devices\<close> renders nothing.
\<close>

definition renderSite :: "nat \<times> TopologyNode \<Rightarrow> jsx" where
  "renderSite p =
     (let siteIndex = fst p; site = snd p;
          x = (if siteIndex = 0 then 150 else 500);
          width = (if siteIndex = 0 then 300 else 200);
          y = 260;
          height = 300
      in
      Element ''g'' [(''key'', Str (''site-'' @ numberToString (topo_id site)))]
        ([ Element ''rect''
             [(''x'', Num x), (''y'', Num y), (''width'', Num width), (''height'', Num height),
              (''rx'', Num 5), (''fill'', Str ''#F3F4F6''), (''stroke'', Str ''#D1D5DB''),
              (''strokeWidth'', Num 2), (''strokeDasharray'', Str ''5,5'')] [],
           Element ''text''
             [(''x'', Num (x + (width / 2))), (''y'', Num (y + 20)),
              (''textAnchor'', Str ''middle''), (''fontWeight'', Str ''bold''),
              (''className'', Str ''text-sm'')] [TextNode (topo_name site)] ]
         @ (case topo_devices site of
              None \<Rightarrow> []
            | Some ds \<Rightarrow>
                map (\<lambda>(deviceIndex, device).
                       let deviceX = x + 20 + (real deviceIndex * (width - 40)
                                               / max 1 (if length ds = 0 then 1 else real (length ds)));
                           deviceY = y + 60
                       in renderDeviceHierarchy device deviceX deviceY 0 (width - 40))
                    (enumerate 0 ds))))"

text \<open>
  The children of the \<^verbatim>\<open><svg>\<close> element that depend on the fetched data, in source
  order: firewalls, routers, switches, site areas. The fixed decoration between them
  (internet cloud, tier connectors, legend) shows no device and is left out.
\<close>

definition topologyDiagram ::
  "Site list option \<Rightarrow> Device list option \<Rightarrow> TopologyNode list option \<Rightarrow> string \<Rightarrow> string
   \<Rightarrow> jsx list" where
  "topologyDiagram sites devices topology selectedSite selectedDeviceType =
     (let network = networkDevices (filteredDevices selectedSite selectedDeviceType devices)
      in map renderFirewall (filter (\<lambda>d. device_type d = ''firewall'') network)
         @ map renderRouter (filter (\<lambda>d. device_type d = ''router'') network)
         @ map (renderSwitch sites) (filter (\<lambda>d. device_type d = ''switch'') network)
         @ (case topology of
              None \<Rightarrow> []
            | Some ts \<Rightarrow> map renderSite (enumerate 0 ts)))"

subsection \<open>Reading the rendered output\<close>

text \<open>
  The pulsing risk indicator is a circle of class \<^verbatim>\<open>animate-pulse\<close>; no other element
  of the page has that class.
\<close>

definition is_risk_indicator :: "jsx \<Rightarrow> bool" where
  "is_risk_indicator e \<longleftrightarrow>
     (case e of
        Element tag attrs cs \<Rightarrow>
          tag = ''circle'' \<and> map_of attrs ''className'' = Some (Str ''animate-pulse'')
      | TextNode t \<Rightarrow> False)"

fun risk_indicator_count :: "jsx \<Rightarrow> nat" where
  "risk_indicator_count (Element tag attrs cs) =
     (if is_risk_indicator (Element tag attrs cs) then 1 else 0)
     + sum_list (map risk_indicator_count cs)"
| "risk_indicator_count (TextNode t) = 0"

text \<open>The statuses the indicator is meant for, and how many devices of a tree have one.\<close>

definition at_risk :: "Device \<Rightarrow> bool" where
  "at_risk d \<longleftrightarrow> device_status d = ''critical'' \<or> device_status d = ''down''
                 \<or> device_status d = ''warning''"

fun at_risk_count :: "DeviceNode \<Rightarrow> nat" where
  "at_risk_count (DeviceNode d cs) =
     (if at_risk d then 1 else 0)
     + (case cs of None \<Rightarrow> 0 | Some l \<Rightarrow> sum_list (map at_risk_count l))"

text \<open>The indicator as lines 102 and 105 write it, up to its colour and centre.\<close>

definition risk_circle :: "string \<Rightarrow> real \<Rightarrow> real \<Rightarrow> jsx" where
  "risk_circle colour cx cy =
     Element ''circle''
       [(''cx'', Num cx), (''cy'', Num cy), (''r'', Num 5), (''fill'', Str colour),
        (''className'', Str ''animate-pulse''), (''opacity'', Num 0.6)] []"

text \<open>
  The rectangle of the root node of a rendered hierarchy, its top-left corner, the middle
  of its top edge and the middle of its bottom edge; the first and the last point of a
  connector path.
\<close>

fun hierarchy_rect :: "jsx \<Rightarrow> jsx option" where
  "hierarchy_rect (Element t a (Element t' a' (r # rs) # es)) = Some r"
| "hierarchy_rect h = None"

definition hierarchy_position :: "jsx \<Rightarrow> (real \<times> real) option" where
  "hierarchy_position h =
     (case hierarchy_rect h of
        None \<Rightarrow> None
      | Some r \<Rightarrow>
          (case (attr_of ''x'' r, attr_of ''y'' r) of
             (Some (Num px), Some (Num py)) \<Rightarrow> Some (px, py)
           | _ \<Rightarrow> None))"

definition hierarchy_top_center :: "jsx \<Rightarrow> (real \<times> real) option" where
  "hierarchy_top_center h =
     (case hierarchy_rect h of
        None \<Rightarrow> None
      | Some r \<Rightarrow>
          (case (attr_of ''x'' r, attr_of ''y'' r, attr_of ''width'' r) of
             (Some (Num px), Some (Num py), Some (Num w)) \<Rightarrow> Some (px + w / 2, py)
           | _ \<Rightarrow> None))"

definition hierarchy_bottom_center :: "jsx \<Rightarrow> (real \<times> real) option" where
  "hierarchy_bottom_center h =
     (case hierarchy_rect h of
        None \<Rightarrow> None
      | Some r \<Rightarrow>
          (case (attr_of ''x'' r, attr_of ''y'' r, attr_of ''width'' r, attr_of ''height'' r) of
             (Some (Num px), Some (Num py), Some (Num w), Some (Num h)) \<Rightarrow> Some (px + w / 2, py + h)
           | _ \<Rightarrow> None))"

fun connector_ends :: "jsx \<Rightarrow> ((real \<times> real) \<times> (real \<times> real)) option" where
  "connector_ends (Element tag attrs cs) =
     (case map_of attrs ''d'' of
        Some (PathData [MoveTo sx sy, CurveTo c1x c1y c2x c2y ex ey]) \<Rightarrow> Some ((sx, sy), (ex, ey))
      | _ \<Rightarrow> None)"
| "connector_ends (TextNode t) = None"

subsection \<open>Sample data\<close>

definition mkDevice :: "int \<Rightarrow> string \<Rightarrow> string \<Rightarrow> string \<Rightarrow> int \<Rightarrow> Device" where
  "mkDevice i nm ty st site =
     \<lparr>device_id = i, device_name = nm, device_type = ty, device_deviceRole = None,
      device_parentDeviceId = None, device_ipAddress = None, device_vlan = None,
      device_operatingSystem = None, device_services = None, device_status = st,
      device_siteId = site\<rparr>"

definition sample_tree :: DeviceNode where
  "sample_tree =
     DeviceNode (mkDevice 1 ''core-router'' ''router'' ''active'' 1)
       (Some [DeviceNode (mkDevice 2 ''sw1'' ''switch'' ''warning'' 1) None,
              DeviceNode (mkDevice 3 ''db1'' ''server'' ''critical'' 1) None])"

definition sample_site :: Site where
  "sample_site = \<lparr>site_id = 1, site_name = ''HQ''\<rparr>"

definition sample_topology :: "TopologyNode list" where
  "sample_topology =
     [\<lparr>topo_id = 1, topo_name = ''HQ'', topo_type = ''site'', topo_devices = Some []\<rparr>]"

section \<open>Change management page\<close>

subsection \<open>Data\<close>

text \<open>
  \<^verbatim>\<open>ChangeRequest\<close> is imported from \<^verbatim>\<open>@shared/schema\<close> and the user from
  \<^verbatim>\<open>useAuth\<close>; the fields are the ones the page reads. A field \<^verbatim>\<open>f\<close> of a change
  request is \<open>request_f\<close>, of the user \<open>user_f\<close>, of the form values \<open>form_f\<close>.
  Dates are kept as the strings the server sends.
\<close>

record ChangeRequest =
  request_id :: int
  request_title :: string
  request_description :: string
  request_status :: string
  request_requestedBy :: int
  request_requestedAt :: string
  request_approvedAt :: "string option"
  request_implementedAt :: "string option"

record User =
  user_role :: string

subsection \<open>The request form (lines 38-69)\<close>

text \<open>
  The values the form holds. A field the schema marks \<^verbatim>\<open>.optional()\<close> or
  \<^verbatim>\<open>.default(...)\<close> may be \<^verbatim>\<open>undefined\<close>: \<open>None\<close>.
\<close>

record RequestForm =
  form_title :: string
  form_description :: string
  form_type :: string
  form_riskLevel :: "string option"
  form_affectedSystems :: "string option"
  form_backoutPlan :: "string option"
  form_sourceIp :: "string option"
  form_destinationIp :: "string option"
  form_portServices :: "string option"
  form_action :: "string option"
  form_firewallRules :: "string option"

text \<open>
  The checks the schema is built from, each returning the issues it raises at a path:
  \<^verbatim>\<open>z.string().min(1, message)\<close>, \<^verbatim>\<open>z.enum([...])\<close> and
  \<^verbatim>\<open>z.enum([...]).optional()\<close>. \<^verbatim>\<open>z.string().optional()\<close> accepts every string and
  \<^verbatim>\<open>undefined\<close>, so it raises nothing on a value of this record.
\<close>

datatype zod_issue = too_small string string | invalid_enum_value string

definition z_string_min1 :: "string \<Rightarrow> string \<Rightarrow> string \<Rightarrow> zod_issue list" where
  "z_string_min1 path message v = (if length v \<ge> 1 then [] else [too_small path message])"

definition z_enum :: "string list \<Rightarrow> string \<Rightarrow> string \<Rightarrow> zod_issue list" where
  "z_enum options path v = (if v \<in> set options then [] else [invalid_enum_value path])"

definition z_enum_optional :: "string list \<Rightarrow> string \<Rightarrow> string option \<Rightarrow> zod_issue list" where
  "z_enum_optional options path v = (case v of None \<Rightarrow> [] | Some e \<Rightarrow> z_enum options path e)"

text \<open>
  \<^verbatim>\<open>requestFormSchema\<close> (lines 39-52) applied to the form values, as the resolver of
  the form does: the issues in the order of the schema's keys, or the parsed data, in
  which \<^verbatim>\<open>riskLevel\<close> has its default \<^verbatim>\<open>"medium"\<close> when it was undefined.
\<close>

definition requestFormSchema :: "RequestForm \<Rightarrow> zod_issue list + RequestForm" where
  "requestFormSchema data =
     (let riskLevel = (case form_riskLevel data of None \<Rightarrow> ''medium'' | Some r \<Rightarrow> r);
          issues =
            z_string_min1 ''title'' ''Title is required'' (form_title data)
            @ z_string_min1 ''description'' ''Description is required'' (form_description data)
            @ z_enum [''standard'', ''firewall'', ''server'', ''network'', ''emergency'']
                ''type'' (form_type data)
            @ z_enum [''low'', ''medium'', ''high'', ''critical''] ''riskLevel'' riskLevel
            @ z_enum_optional [''allow'', ''deny'', ''nat'', ''other''] ''action'' (form_action data)
      in if issues = [] then Inr (data\<lparr>form_riskLevel := Some riskLevel\<rparr>) else Inl issues)"

text \<open>Lines 56-68.\<close>

definition defaultValues :: RequestForm where
  "defaultValues =
     \<lparr>form_title = ''Firewall Rule Change'', form_description = '''', form_type = ''firewall'',
      form_riskLevel = Some ''medium'', form_affectedSystems = Some '''',
      form_backoutPlan = Some '''', form_sourceIp = Some '''', form_destinationIp = Some '''',
      form_portServices = Some '''', form_action = Some ''allow'',
      form_firewallRules = Some ''''\<rparr>"

text \<open>
  The values a form of the type \<^verbatim>\<open>z.infer<typeof requestFormSchema>\<close> can hold in its
  three selects: one of the listed options, or nothing where the schema allows it.
\<close>

definition well_typed_form :: "RequestForm \<Rightarrow> bool" where
  "well_typed_form f \<longleftrightarrow>
     form_type f \<in> set [''standard'', ''firewall'', ''server'', ''network'', ''emergency'']
     \<and> (case form_riskLevel f of
          None \<Rightarrow> True
        | Some r \<Rightarrow> r \<in> set [''low'', ''medium'', ''high'', ''critical''])
     \<and> (case form_action f of
          None \<Rightarrow> True
        | Some a \<Rightarrow> a \<in> set [''allow'', ''deny'', ''nat'', ''other''])"

subsection \<open>Page state and effects\<close>

text \<open>
  What the handlers of the page read and write: the four \<^verbatim>\<open>useState\<close> cells (lines
  25-28), the form, the query cache of the shared \<^verbatim>\<open>queryClient\<close>, the notifications
  raised through \<^verbatim>\<open>toast\<close>, the requests sent through \<^verbatim>\<open>apiRequest\<close>, and the
  \<^verbatim>\<open>isPending\<close> flag of each of the three mutations.
\<close>

datatype request_body = FormBody RequestForm | EmptyBody

record ApiCall =
  call_method :: string
  call_url :: string
  call_body :: request_body

record Toast =
  toast_title :: string
  toast_description :: string
  toast_variant :: "string option"

record CacheEntry =
  entry_data :: "ChangeRequest list option"
  entry_isInvalidated :: bool

record PageState =
  dialogOpen :: bool
  activeTab :: string
  selectedRequest :: "ChangeRequest option"
  detailsOpen :: bool
  formValues :: RequestForm
  formErrors :: "zod_issue list"
  queryCache :: "string list \<Rightarrow> CacheEntry option"
  toasts :: "Toast list"
  apiCalls :: "ApiCall list"
  createPending :: bool
  approvePending :: bool
  implementPending :: bool

text \<open>
  \<^verbatim>\<open>queryClient.invalidateQueries({ queryKey })\<close> of the query library: every cached
  query whose key starts with \<^verbatim>\<open>queryKey\<close> is marked invalidated, which makes the
  library fetch it again; the data of no entry is touched.
\<close>

definition invalidateQueries :: "string list \<Rightarrow> PageState \<Rightarrow> PageState" where
  "invalidateQueries queryKey s =
     s\<lparr>queryCache := (\<lambda>k. case queryCache s k of
                              None \<Rightarrow> None
                            | Some e \<Rightarrow>
                                if take (length queryKey) k = queryKey
                                then Some (e\<lparr>entry_isInvalidated := True\<rparr>)
                                else Some e)\<rparr>"

text \<open>\<^verbatim>\<open>toast({...})\<close> raises one notification; \<^verbatim>\<open>form.reset()\<close> restores the defaults.\<close>

definition toast :: "Toast \<Rightarrow> PageState \<Rightarrow> PageState" where
  "toast t s = s\<lparr>toasts := toasts s @ [t]\<rparr>"

definition form_reset :: "PageState \<Rightarrow> PageState" where
  "form_reset s = s\<lparr>formValues := defaultValues, formErrors := []\<rparr>"

subsection \<open>The three mutations (lines 71-139)\<close>

datatype mutation = CreateRequest RequestForm | ApproveRequest int | ImplementRequest int

text \<open>The request each \<^verbatim>\<open>mutationFn\<close> sends (lines 74, 98 and 121).\<close>

fun mutationFn :: "mutation \<Rightarrow> ApiCall" where
  "mutationFn (CreateRequest data) =
     \<lparr>call_method = ''POST'', call_url = ''/api/change-requests'', call_body = FormBody data\<rparr>"
| "mutationFn (ApproveRequest i) =
     \<lparr>call_method = ''PUT'',
      call_url = ''/api/change-requests/'' @ numberToString i @ ''/approve'',
      call_body = EmptyBody\<rparr>"
| "mutationFn (ImplementRequest i) =
     \<lparr>call_method = ''PUT'',
      call_url = ''/api/change-requests/'' @ numberToString i @ ''/implement'',
      call_body = EmptyBody\<rparr>"

text \<open>Lines 77-92: the handlers of \<^verbatim>\<open>createRequestMutation\<close>.\<close>

definition createRequest_onSuccess :: "PageState \<Rightarrow> PageState" where
  "createRequest_onSuccess s =
     toast \<lparr>toast_title = ''Change Request Created'',
            toast_description =
              ''The change request has been successfully created and is pending approval.'',
            toast_variant = None\<rparr>
       (form_reset ((invalidateQueries [''/api/change-requests''] s)\<lparr>dialogOpen := False\<rparr>))"

definition createRequest_onError :: "string \<Rightarrow> PageState \<Rightarrow> PageState" where
  "createRequest_onError message s =
     toast \<lparr>toast_title = ''Failed to Create Change Request'', toast_description = message,
            toast_variant = Some ''destructive''\<rparr> s"

text \<open>Lines 101-115: the handlers of \<^verbatim>\<open>approveRequestMutation\<close>.\<close>

definition approveRequest_onSuccess :: "PageState \<Rightarrow> PageState" where
  "approveRequest_onSuccess s =
     toast \<lparr>toast_title = ''Change Request Approved'',
            toast_description = ''The change request has been approved successfully.'',
            toast_variant = None\<rparr>
       ((invalidateQueries [''/api/change-requests''] s)\<lparr>detailsOpen := False\<rparr>)"

definition approveRequest_onError :: "string \<Rightarrow> PageState \<Rightarrow> PageState" where
  "approveRequest_onError message s =
     toast \<lparr>toast_title = ''Failed to Approve Change Request'', toast_description = message,
            toast_variant = Some ''destructive''\<rparr> s"

text \<open>Lines 124-138: the handlers of \<^verbatim>\<open>implementRequestMutation\<close>.\<close>

definition implementRequest_onSuccess :: "PageState \<Rightarrow> PageState" where
  "implementRequest_onSuccess s =
     toast \<lparr>toast_title = ''Change Request Implemented'',
            toast_description = ''The change request has been marked as implemented.'',
            toast_variant = None\<rparr>
       ((invalidateQueries [''/api/change-requests''] s)\<lparr>detailsOpen := False\<rparr>)"

definition implementRequest_onError :: "string \<Rightarrow> PageState \<Rightarrow> PageState" where
  "implementRequest_onError message s =
     toast \<lparr>toast_title = ''Failed to Implement Change Request'', toast_description = message,
            toast_variant = Some ''destructive''\<rparr> s"

fun onSuccess :: "mutation \<Rightarrow> PageState \<Rightarrow> PageState" where
  "onSuccess (CreateRequest data) s = createRequest_onSuccess s"
| "onSuccess (ApproveRequest i) s = approveRequest_onSuccess s"
| "onSuccess (ImplementRequest i) s = implementRequest_onSuccess s"

fun onError :: "mutation \<Rightarrow> string \<Rightarrow> PageState \<Rightarrow> PageState" where
  "onError (CreateRequest data) message s = createRequest_onError message s"
| "onError (ApproveRequest i) message s = approveRequest_onError message s"
| "onError (ImplementRequest i) message s = implementRequest_onError message s"

text \<open>
  A mutation of the query library runs in two steps. \<^verbatim>\<open>mutate(variables)\<close> calls
  \<^verbatim>\<open>mutationFn\<close> once, which sends the request, and raises \<^verbatim>\<open>isPending\<close>. When
  the request settles, \<^verbatim>\<open>isPending\<close> falls and the library calls \<^verbatim>\<open>onSuccess\<close>
  (the handlers of this page ignore the response) or \<^verbatim>\<open>onError\<close> with the error
  thrown, of which the handlers read \<^verbatim>\<open>error.message\<close>.
\<close>

fun set_pending :: "mutation \<Rightarrow> bool \<Rightarrow> PageState \<Rightarrow> PageState" where
  "set_pending (CreateRequest data) b s = s\<lparr>createPending := b\<rparr>"
| "set_pending (ApproveRequest i) b s = s\<lparr>approvePending := b\<rparr>"
| "set_pending (ImplementRequest i) b s = s\<lparr>implementPending := b\<rparr>"

definition mutate :: "mutation \<Rightarrow> PageState \<Rightarrow> PageState" where
  "mutate m s = set_pending m True (s\<lparr>apiCalls := apiCalls s @ [mutationFn m]\<rparr>)"

datatype outcome = Resolved string | Rejected string

fun settle :: "mutation \<Rightarrow> outcome \<Rightarrow> PageState \<Rightarrow> PageState" where
  "settle m (Resolved response) s = onSuccess m (set_pending m False s)"
| "settle m (Rejected message) s = onError m message (set_pending m False s)"

subsection \<open>Event handlers (lines 141-156 and 212)\<close>

definition handleCreateRequest :: "RequestForm \<Rightarrow> PageState \<Rightarrow> PageState" where
  "handleCreateRequest data s = mutate (CreateRequest data) s"

definition handleApproveRequest :: "int \<Rightarrow> PageState \<Rightarrow> PageState" where
  "handleApproveRequest i s = mutate (ApproveRequest i) s"

definition handleImplementRequest :: "int \<Rightarrow> PageState \<Rightarrow> PageState" where
  "handleImplementRequest i s = mutate (ImplementRequest i) s"

definition handleViewDetails :: "ChangeRequest \<Rightarrow> PageState \<Rightarrow> PageState" where
  "handleViewDetails request s = s\<lparr>selectedRequest := Some request, detailsOpen := True\<rparr>"

text \<open>
  \<^verbatim>\<open>form.handleSubmit(handleCreateRequest)\<close>: the resolver validates the form values;
  issues are shown at their fields and nothing is sent, parsed data goes to
  \<^verbatim>\<open>handleCreateRequest\<close>.
\<close>

definition handleSubmit :: "PageState \<Rightarrow> PageState" where
  "handleSubmit s =
     (case requestFormSchema (formValues s) of
        Inl issues \<Rightarrow> s\<lparr>formErrors := issues\<rparr>
      | Inr data \<Rightarrow> handleCreateRequest data (s\<lparr>formErrors := []\<rparr>))"

subsection \<open>The actions of the details dialog (lines 612-658)\<close>

text \<open>
  The two conditional blocks inside \<^verbatim>\<open>{selectedRequest && (...)}\<close>. A button is kept
  as the request id its \<^verbatim>\<open>onClick\<close> passes to the handler and its \<^verbatim>\<open>disabled\<close>
  flag. \<^verbatim>\<open>user?.role\<close> of an absent user is \<^verbatim>\<open>undefined\<close> and equals no role.
\<close>

datatype detail_control = ApproveButton int bool | ImplementButton int bool

definition detailControls :: "User option \<Rightarrow> PageState \<Rightarrow> detail_control list" where
  "detailControls user s =
     (case selectedRequest s of
        None \<Rightarrow> []
      | Some r \<Rightarrow>
          (if request_status r = ''pending''
              \<and> (map_option user_role user = Some ''admin''
                   \<or> map_option user_role user = Some ''approver'')
           then [ApproveButton (request_id r) (approvePending s)] else [])
          @ (if request_status r = ''approved''
                \<and> (map_option user_role user = Some ''admin''
                     \<or> map_option user_role user = Some ''implementer'')
             then [ImplementButton (request_id r) (implementPending s)] else []))"

text \<open>
  A click on a button runs its \<^verbatim>\<open>onClick\<close> unless the button is disabled. A click on
  the approve or the implement action is possible only where that button is rendered:
  \<open>click\<close> is \<open>None\<close> where it is not.
\<close>

fun onClick :: "detail_control \<Rightarrow> PageState \<Rightarrow> PageState" where
  "onClick (ApproveButton i disabled) s = (if disabled then s else handleApproveRequest i s)"
| "onClick (ImplementButton i disabled) s = (if disabled then s else handleImplementRequest i s)"

datatype ui_click = ClickApprove | ClickImplement

fun handles :: "ui_click \<Rightarrow> detail_control \<Rightarrow> bool" where
  "handles ClickApprove (ApproveButton i disabled) = True"
| "handles ClickImplement (ImplementButton i disabled) = True"
| "handles c b = False"

definition click :: "User option \<Rightarrow> ui_click \<Rightarrow> PageState \<Rightarrow> PageState option" where
  "click user c s =
     (case find (handles c) (detailControls user s) of
        None \<Rightarrow> None
      | Some b \<Rightarrow> Some (onClick b s))"

subsection \<open>Sample page states\<close>

text \<open>The page as first rendered, with the list of change requests fetched and empty.\<close>

definition initialState :: PageState where
  "initialState =
     \<lparr>dialogOpen = False, activeTab = ''all'', selectedRequest = None, detailsOpen = False,
      formValues = defaultValues, formErrors = [],
      queryCache = [[''/api/change-requests''] \<mapsto>
                      \<lparr>entry_data = Some [], entry_isInvalidated = False\<rparr>],
      toasts = [], apiCalls = [],
      createPending = False, approvePending = False, implementPending = False\<rparr>"

definition sample_request :: "string \<Rightarrow> ChangeRequest" where
  "sample_request status =
     \<lparr>request_id = 12, request_title = ''Open port 443'', request_description = ''web'',
      request_status = status, request_requestedBy = 3, request_requestedAt = ''2024-05-01'',
      request_approvedAt = None, request_implementedAt = None\<rparr>"

section \<open>Device filtering\<close>

text \<open>
  Claim C3. For every device list and every pair of selections \<open>S\<close> (site) and \<open>T\<close>
  (type), the filtered list holds exactly the devices \<open>d\<close> of the list with
  (\<open>S\<close> is \<open>all\<close> or the decimal string of \<open>d\<close>'s site id is \<open>S\<close>) and (\<open>T\<close> is
  \<open>all\<close> or \<open>d\<close>'s type is \<open>T\<close>), in their order; with \<open>all\<close> chosen for a dimension
  that conjunct filters nothing.
\<close>

theorem filteredDevices_exact:
  "filteredDevices S T (Some devices) = Some (filter (spec_device_selected S T) devices)
   \<and> set (the (filteredDevices S T (Some devices)))
       = {d. d \<in> set devices
             \<and> (S = ''all'' \<or> numberToString (device_siteId d) = S)
             \<and> (T = ''all'' \<or> device_type d = T)}
   \<and> filteredDevices ''all'' T (Some devices)
       = Some (filter (\<lambda>d. T = ''all'' \<or> device_type d = T) devices)
   \<and> filteredDevices S ''all'' (Some devices)
       = Some (filter (\<lambda>d. S = ''all'' \<or> numberToString (device_siteId d) = S) devices)
   \<and> filteredDevices ''all'' ''all'' (Some devices) = Some devices"
proof -
  have sel: "spec_device_selected S T
             = (\<lambda>d. (S = ''all'' \<or> numberToString (device_siteId d) = S)
                    \<and> (T = ''all'' \<or> device_type d = T))"
    by (rule ext) (simp add: spec_device_selected_def)
  have "filteredDevices S T (Some devices) = Some (filter (spec_device_selected S T) devices)"
    by (simp add: filteredDevices_def sel)
  moreover have "set (the (filteredDevices S T (Some devices)))
       = {d. d \<in> set devices
             \<and> (S = ''all'' \<or> numberToString (device_siteId d) = S)
             \<and> (T = ''all'' \<or> device_type d = T)}"
    by (auto simp: filteredDevices_def)
  moreover have "filteredDevices ''all'' T (Some devices)
       = Some (filter (\<lambda>d. T = ''all'' \<or> device_type d = T) devices)"
    by (simp add: filteredDevices_def)
  moreover have "filteredDevices S ''all'' (Some devices)
       = Some (filter (\<lambda>d. S = ''all'' \<or> numberToString (device_siteId d) = S) devices)"
    by (simp add: filteredDevices_def)
  moreover have "filteredDevices ''all'' ''all'' (Some devices) = Some devices"
    by (simp add: filteredDevices_def)
  ultimately show ?thesis by blast
qed

section \<open>Risk indicator\<close>

lemma node_indicators:
  "filter is_risk_indicator (element_children (deviceNodeElement d x y))
   = (if device_status d = ''critical'' \<or> device_status d = ''down''
        then [risk_circle ''#FF0000'' (x + nodeWidth d / 2) (y - 10)]
      else if device_status d = ''warning''
        then [risk_circle ''#FF832B'' (x + nodeWidth d / 2) (y - 10)]
      else [])"
  by (simp add: deviceNodeElement_def is_risk_indicator_def risk_circle_def split: prod.splits)

lemma node_count:
  "risk_indicator_count (deviceNodeElement d x y) = (if at_risk d then 1 else 0)"
  by (simp add: deviceNodeElement_def is_risk_indicator_def at_risk_def split: prod.splits)

lemma hierarchy_count:
  "risk_indicator_count (renderDeviceHierarchy node x y level w) = at_risk_count node"
  "sum_list (map risk_indicator_count (forEachChild cs i d x y level w n))
     = sum_list (map at_risk_count cs)"
proof (induction node x y level w and cs i d x y level w n
       rule: renderDeviceHierarchy_forEachChild.induct)
  case (1 device children x y level availableWidth)
  then show ?case
    by (simp add: node_count is_risk_indicator_def split: option.splits)
next
  case (2 index device x y level availableWidth childrenCount)
  then show ?case by simp
next
  case (3 child rest index device x y level availableWidth childrenCount)
  then show ?case
    by (simp add: Let_def is_risk_indicator_def)
qed

lemma static_no_indicator:
  "risk_indicator_count (renderFirewall d) = 0"
  "risk_indicator_count (renderRouter d) = 0"
  "risk_indicator_count (renderSwitch sites d) = 0"
  by (simp_all add: renderFirewall_def renderRouter_def renderSwitch_def is_risk_indicator_def Let_def)


text \<open>
  Claim C4, as amended. Every device node drawn by the layout engine carries the pulsing
  indicator exactly when the device's status is critical, down or warning (one red circle
  for critical or down, one orange circle for warning, none otherwise), so a rendered
  hierarchy holds as many indicators as it has devices of such a status. The tier icons
  drawn for firewalls, routers and switches never carry an indicator.
\<close>

theorem risk_indicator_layout_engine_only:
  "filter is_risk_indicator
     (element_children (hd (element_children
        (renderDeviceHierarchy (DeviceNode d cs) x y level w))))
     = (if device_status d = ''critical'' \<or> device_status d = ''down''
          then [risk_circle ''#FF0000'' (x + nodeWidth d / 2) (y - 10)]
        else if device_status d = ''warning''
          then [risk_circle ''#FF832B'' (x + nodeWidth d / 2) (y - 10)]
        else [])
   \<and> risk_indicator_count (renderDeviceHierarchy node x y level w) = at_risk_count node
   \<and> risk_indicator_count (renderFirewall d) = 0
   \<and> risk_indicator_count (renderRouter d) = 0
   \<and> risk_indicator_count (renderSwitch sites d) = 0"
  by (simp add: node_indicators hierarchy_count static_no_indicator)

text \<open>
  Claim C4 as stated fails on the tier icons: with one site, no device in its topology and
  a firewall of status critical in the device list, the diagram is the firewall's icon and
  the empty site area, and neither the icon nor the diagram holds an indicator.
\<close>

theorem critical_firewall_without_indicator:
  "device_status (mkDevice 7 ''edge-fw'' ''firewall'' ''critical'' 1) = ''critical''
   \<and> topologyDiagram (Some [sample_site])
        (Some [mkDevice 7 ''edge-fw'' ''firewall'' ''critical'' 1]) (Some sample_topology)
        ''all'' ''all''
       = [renderFirewall (mkDevice 7 ''edge-fw'' ''firewall'' ''critical'' 1),
          renderSite (0, hd sample_topology)]
   \<and> risk_indicator_count (renderFirewall (mkDevice 7 ''edge-fw'' ''firewall'' ''critical'' 1)) = 0
   \<and> sum_list (map risk_indicator_count
        (topologyDiagram (Some [sample_site])
           (Some [mkDevice 7 ''edge-fw'' ''firewall'' ''critical'' 1]) (Some sample_topology)
           ''all'' ''all'')) = 0"
proof -
  have d: "topologyDiagram (Some [sample_site])
        (Some [mkDevice 7 ''edge-fw'' ''firewall'' ''critical'' 1]) (Some sample_topology)
        ''all'' ''all''
       = [renderFirewall (mkDevice 7 ''edge-fw'' ''firewall'' ''critical'' 1),
          renderSite (0, hd sample_topology)]"
    by (simp add: topologyDiagram_def filteredDevices_def networkDevices_def mkDevice_def
          sample_topology_def enumerate_eq_zip)
  have s: "risk_indicator_count (renderSite (0, hd sample_topology)) = 0"
    by (simp add: renderSite_def sample_topology_def is_risk_indicator_def Let_def)
  show ?thesis
    unfolding d by (simp add: static_no_indicator s) (simp add: mkDevice_def)
qed

section \<open>Layout of the children\<close>

lemma hierarchy_position_render:
  "hierarchy_position (renderDeviceHierarchy node x y level w) = Some (x, y)"
  by (cases node) (simp add: hierarchy_position_def deviceNodeElement_def split: prod.splits)

lemma hierarchy_top_center_render:
  "hierarchy_top_center (renderDeviceHierarchy node x y level w)
     = Some (x + nodeWidth (node_device node) / 2, y)"
  by (cases node) (simp add: hierarchy_top_center_def deviceNodeElement_def split: prod.splits)

lemma hierarchy_bottom_center_render:
  "hierarchy_bottom_center (renderDeviceHierarchy node x y level w)
     = Some (x + nodeWidth (node_device node) / 2, y + 40)"
  by (cases node) (simp add: hierarchy_bottom_center_def deviceNodeElement_def nodeHeight_def split: prod.splits)

lemma forEachChild_child:
  "i < length cs \<Longrightarrow>
   forEachChild cs k d x y level w n ! (2 * i + 1)
     = renderDeviceHierarchy (cs ! i)
         (x - w / 2 + (w / real n) * real (k + i) + (w / real n) / 2 - 25)
         (y + 70) (level + 1) (w / real n - 10)"
proof (induction cs arbitrary: k i)
  case Nil
  then show ?case by simp
next
  case (Cons c cs)
  show ?case
  proof (cases i)
    case 0
    then show ?thesis by (simp add: Let_def verticalSpacing_def)
  next
    case (Suc j)
    then have "j < length cs" using Cons.prems by simp
    then have "forEachChild cs (k + 1) d x y level w n ! (2 * j + 1)
     = renderDeviceHierarchy (cs ! j)
         (x - w / 2 + (w / real n) * real (k + 1 + j) + (w / real n) / 2 - 25)
         (y + 70) (level + 1) (w / real n - 10)"
      by (rule Cons.IH)
    then show ?thesis using Suc by (simp add: Let_def)
  qed
qed

lemma forEachChild_connector:
  "i < length cs \<Longrightarrow>
   connector_ends (forEachChild cs k d x y level w n ! (2 * i))
     = Some ((x + nodeWidth d / 2, y + 40),
             (x - w / 2 + (w / real n) * real (k + i) + (w / real n) / 2 - 25 + 25, y + 70))"
proof (induction cs arbitrary: k i)
  case Nil
  then show ?case by simp
next
  case (Cons c cs)
  show ?case
  proof (cases i)
    case 0
    then show ?thesis by (simp add: Let_def verticalSpacing_def nodeHeight_def)
  next
    case (Suc j)
    then have "j < length cs" using Cons.prems by simp
    then have "connector_ends (forEachChild cs (k + 1) d x y level w n ! (2 * j))
     = Some ((x + nodeWidth d / 2, y + 40),
             (x - w / 2 + (w / real n) * real (k + 1 + j) + (w / real n) / 2 - 25 + 25, y + 70))"
      by (rule Cons.IH)
    then show ?thesis using Suc by (simp add: Let_def)
  qed
qed

lemma render_children_elements:
  "node_children node = Some cs \<Longrightarrow> 0 < length cs \<Longrightarrow>
   element_children (renderDeviceHierarchy node x y level w)
     = deviceNodeElement (node_device node) x y
       # forEachChild cs 0 (node_device node) x y level w (length cs)"
  by (cases node) simp


text \<open>
  Claim C5. For a node with \<open>n > 0\<close> children laid out with available width \<open>W\<close> at
  \<open>(x, y)\<close>, the child of index \<open>i\<close> (from 0, in the given order) is rendered at
  x-coordinate \<open>x - W/2 + (W/n) * i + (W/n)/2 - 25\<close> and y-coordinate \<open>y + 70\<close>,
  whatever its subtree; its slot has the width \<open>W/n\<close>, and its own children are laid
  out with the width \<open>W/n - 10\<close>.
\<close>

theorem child_slot_layout:
  assumes "node_children node = Some cs" and "i < length cs"
  shows "element_children (renderDeviceHierarchy node x y level W) ! (2 * i + 2)
           = renderDeviceHierarchy (cs ! i)
               (x - W / 2 + (W / real (length cs)) * real i + (W / real (length cs)) / 2 - 25)
               (y + 70) (level + 1) (W / real (length cs) - 10)
         \<and> hierarchy_position (element_children (renderDeviceHierarchy node x y level W) ! (2 * i + 2))
           = Some (x - W / 2 + (W / real (length cs)) * real i + (W / real (length cs)) / 2 - 25,
                   y + 70)"
proof -
  have pos: "0 < length cs" using assms(2) by (cases cs) simp_all
  have "element_children (renderDeviceHierarchy node x y level W) ! (2 * i + 2)
        = forEachChild cs 0 (node_device node) x y level W (length cs) ! (2 * i + 1)"
    using render_children_elements [OF assms(1) pos] by simp
  also have "\<dots> = renderDeviceHierarchy (cs ! i)
               (x - W / 2 + (W / real (length cs)) * real (0 + i) + (W / real (length cs)) / 2 - 25)
               (y + 70) (level + 1) (W / real (length cs) - 10)"
    using assms(2) by (rule forEachChild_child)
  finally have eq: "element_children (renderDeviceHierarchy node x y level W) ! (2 * i + 2)
           = renderDeviceHierarchy (cs ! i)
               (x - W / 2 + (W / real (length cs)) * real i + (W / real (length cs)) / 2 - 25)
               (y + 70) (level + 1) (W / real (length cs) - 10)"
    by simp
  show ?thesis
    unfolding eq by (simp add: hierarchy_position_render)
qed

theorem child_slot_layout_witness:
  "node_children sample_tree
     = Some [DeviceNode (mkDevice 2 ''sw1'' ''switch'' ''warning'' 1) None,
             DeviceNode (mkDevice 3 ''db1'' ''server'' ''critical'' 1) None]
   \<and> (1::nat) < length [DeviceNode (mkDevice 2 ''sw1'' ''switch'' ''warning'' 1) None,
             DeviceNode (mkDevice 3 ''db1'' ''server'' ''critical'' 1) None]
   \<and> hierarchy_position (element_children (renderDeviceHierarchy sample_tree 170 320 0 260) ! 4)
       = Some (210, 390)"
proof -
  have c: "node_children sample_tree
     = Some [DeviceNode (mkDevice 2 ''sw1'' ''switch'' ''warning'' 1) None,
             DeviceNode (mkDevice 3 ''db1'' ''server'' ''critical'' 1) None]"
    by (simp add: sample_tree_def)
  have l: "(1::nat) < length [DeviceNode (mkDevice 2 ''sw1'' ''switch'' ''warning'' 1) None,
             DeviceNode (mkDevice 3 ''db1'' ''server'' ''critical'' 1) None]"
    by simp
  show ?thesis
    using c l child_slot_layout [OF c l, of 170 320 0 260, THEN conjunct2] by simp
qed

section \<open>Connector paths\<close>

text \<open>
  Claim C6 at a router at \<open>(170, 320)\<close> with width 260 and two children, a switch and
  a server. Both connectors start at the router's bottom centre \<open>(200, 360)\<close>. The one
  to the switch ends at \<open>(105, 390)\<close>, while the top centre of the switch, which is 60
  wide and placed at \<open>x = 80\<close>, is \<open>(110, 390)\<close>. The one to the server, which is 50
  wide and placed at \<open>x = 210\<close>, ends at its top centre \<open>(235, 390)\<close>.
\<close>

theorem connector_misses_switch_child:
  "hierarchy_bottom_center (renderDeviceHierarchy sample_tree 170 320 0 260) = Some (200, 360)
   \<and> connector_ends (element_children (renderDeviceHierarchy sample_tree 170 320 0 260) ! 1)
     = Some ((200, 360), (105, 390))
   \<and> hierarchy_top_center (element_children (renderDeviceHierarchy sample_tree 170 320 0 260) ! 2)
     = Some (110, 390)
   \<and> connector_ends (element_children (renderDeviceHierarchy sample_tree 170 320 0 260) ! 3)
     = Some ((200, 360), (235, 390))
   \<and> hierarchy_top_center (element_children (renderDeviceHierarchy sample_tree 170 320 0 260) ! 4)
     = Some (235, 390)"
proof -
  let ?sw = "DeviceNode (mkDevice 2 ''sw1'' ''switch'' ''warning'' 1) None"
  let ?db = "DeviceNode (mkDevice 3 ''db1'' ''server'' ''critical'' 1) None"
  let ?r = "mkDevice 1 ''core-router'' ''router'' ''active'' 1"
  have c: "node_children sample_tree = Some [?sw, ?db]"
    by (simp add: sample_tree_def)
  have d: "node_device sample_tree = ?r"
    by (simp add: sample_tree_def)
  have w: "nodeWidth ?r = 60" "nodeWidth (mkDevice 2 ''sw1'' ''switch'' ''warning'' 1) = 60"
    "nodeWidth (mkDevice 3 ''db1'' ''server'' ''critical'' 1) = 50"
    by (simp_all add: nodeWidth_def mkDevice_def)
  have els: "element_children (renderDeviceHierarchy sample_tree 170 320 0 260)
     = deviceNodeElement ?r 170 320 # forEachChild [?sw, ?db] 0 ?r 170 320 0 260 2"
    using render_children_elements [OF c, of 170 320 0 260] d by simp
  have b: "hierarchy_bottom_center (renderDeviceHierarchy sample_tree 170 320 0 260)
           = Some (200, 360)"
    by (simp add: hierarchy_bottom_center_render d w)
  have p0: "connector_ends (forEachChild [?sw, ?db] 0 ?r 170 320 0 260 2 ! 0)
            = Some ((200, 360), (105, 390))"
    using forEachChild_connector [of 0 "[?sw, ?db]" 0 ?r 170 320 0 260 2]
    by (simp add: w del: forEachChild.simps)
  have p1: "connector_ends (forEachChild [?sw, ?db] 0 ?r 170 320 0 260 2 ! 2)
            = Some ((200, 360), (235, 390))"
    using forEachChild_connector [of 1 "[?sw, ?db]" 0 ?r 170 320 0 260 2]
    by (simp add: w del: forEachChild.simps)
  have t0: "hierarchy_top_center (forEachChild [?sw, ?db] 0 ?r 170 320 0 260 2 ! 1)
            = Some (110, 390)"
    using forEachChild_child [of 0 "[?sw, ?db]" 0 ?r 170 320 0 260 2]
    by (simp add: hierarchy_top_center_render w
          del: forEachChild.simps renderDeviceHierarchy.simps)
  have t1: "hierarchy_top_center (forEachChild [?sw, ?db] 0 ?r 170 320 0 260 2 ! 3)
            = Some (235, 390)"
    using forEachChild_child [of 1 "[?sw, ?db]" 0 ?r 170 320 0 260 2]
    by (simp add: hierarchy_top_center_render w
          del: forEachChild.simps renderDeviceHierarchy.simps)
  show ?thesis
    unfolding els
    using b p0 p1 t0 t1
    by (simp del: forEachChild.simps renderDeviceHierarchy.simps)
qed

section \<open>Zoom bounds\<close>

lemma zoom_step_bounds:
  "0.5 \<le> z \<and> z \<le> 2 \<Longrightarrow> 0.5 \<le> zoom_step z a \<and> zoom_step z a \<le> 2"
  by (cases a) (auto simp: handleZoomIn_def handleZoomOut_def)

lemma foldl_zoom_bounds:
  "0.5 \<le> z \<and> z \<le> 2 \<Longrightarrow>
   0.5 \<le> foldl zoom_step z acts \<and> foldl zoom_step z acts \<le> 2"
proof (induction acts arbitrary: z)
  case Nil
  then show ?case by simp
next
  case (Cons a acts)
  have "0.5 \<le> zoom_step z a \<and> zoom_step z a \<le> 2"
    using Cons.prems by (rule zoom_step_bounds)
  then show ?case
    using Cons.IH by simp
qed

text \<open>
  Claim C10. The zoom starts at 1; a zoom-in replaces \<open>z\<close> by \<open>min (z + 0.1) 2\<close>, a
  zoom-out by \<open>max (z - 0.1) 0.5\<close>; after any sequence of zoom actions the zoom lies in
  the closed interval from 0.5 to 2.
\<close>

theorem zoom_always_within_bounds:
  "initialZoom = 1
   \<and> zoom_step z ZoomIn = min (z + 0.1) 2
   \<and> zoom_step z ZoomOut = max (z - 0.1) 0.5
   \<and> 0.5 \<le> zoom_after acts \<and> zoom_after acts \<le> 2"
proof -
  have "0.5 \<le> initialZoom \<and> initialZoom \<le> 2"
    by (simp add: initialZoom_def)
  then have "0.5 \<le> foldl zoom_step initialZoom acts \<and> foldl zoom_step initialZoom acts \<le> 2"
    by (rule foldl_zoom_bounds)
  then show ?thesis
    by (simp add: zoom_after_def initialZoom_def handleZoomIn_def handleZoomOut_def)
qed

section \<open>Transitions of a change request\<close>

lemma find_handles_approve:
  "find (handles ClickApprove) (detailControls user s) = Some b \<Longrightarrow>
   \<exists>r. selectedRequest s = Some r \<and> request_status r = ''pending''
       \<and> b = ApproveButton (request_id r) (approvePending s)"
  by (auto simp: detailControls_def split: option.splits if_splits)

lemma find_handles_implement:
  "find (handles ClickImplement) (detailControls user s) = Some b \<Longrightarrow>
   \<exists>r. selectedRequest s = Some r \<and> request_status r = ''approved''
       \<and> b = ImplementButton (request_id r) (implementPending s)"
  by (auto simp: detailControls_def split: option.splits if_splits)

text \<open>
  Claim C1. The approve action can be issued only when the status of the selected request
  is pending, the implement action only when it is approved; so no transition is issued
  from a request whose status is implemented or rejected. Where the click is possible, it
  leaves the page as it is (button disabled) or sends the one transition request for the
  selected request.
\<close>

theorem transitions_only_from_pending_or_approved:
  assumes "click user c s = Some s'"
  shows "\<exists>r. selectedRequest s = Some r
           \<and> request_status r = (case c of ClickApprove \<Rightarrow> ''pending''
                                          | ClickImplement \<Rightarrow> ''approved'')
           \<and> request_status r \<noteq> ''implemented'' \<and> request_status r \<noteq> ''rejected''
           \<and> (s' = s
               \<or> s' = mutate (case c of ClickApprove \<Rightarrow> ApproveRequest (request_id r)
                                       | ClickImplement \<Rightarrow> ImplementRequest (request_id r)) s)"
proof (cases c)
  case ClickApprove
  from assms obtain b where b: "find (handles ClickApprove) (detailControls user s) = Some b"
    and s': "s' = onClick b s"
    by (auto simp: click_def ClickApprove split: option.splits)
  from find_handles_approve [OF b] obtain r where
    "selectedRequest s = Some r" "request_status r = ''pending''"
    "b = ApproveButton (request_id r) (approvePending s)" by blast
  then show ?thesis using s' ClickApprove
    by (auto simp: handleApproveRequest_def)
next
  case ClickImplement
  from assms obtain b where b: "find (handles ClickImplement) (detailControls user s) = Some b"
    and s': "s' = onClick b s"
    by (auto simp: click_def ClickImplement split: option.splits)
  from find_handles_implement [OF b] obtain r where
    "selectedRequest s = Some r" "request_status r = ''approved''"
    "b = ImplementButton (request_id r) (implementPending s)" by blast
  then show ?thesis using s' ClickImplement
    by (auto simp: handleImplementRequest_def)
qed

theorem transitions_only_from_pending_or_approved_witness:
  "click (Some \<lparr>user_role = ''admin''\<rparr>) ClickApprove
      (handleViewDetails (sample_request ''pending'') initialState)
     = Some (mutate (ApproveRequest 12) (handleViewDetails (sample_request ''pending'') initialState))
   \<and> click (Some \<lparr>user_role = ''admin''\<rparr>) ClickApprove
      (handleViewDetails (sample_request ''implemented'') initialState) = None
   \<and> (\<exists>r. selectedRequest (handleViewDetails (sample_request ''pending'') initialState) = Some r
          \<and> request_status r = ''pending'')"
proof -
  have c: "click (Some \<lparr>user_role = ''admin''\<rparr>) ClickApprove
      (handleViewDetails (sample_request ''pending'') initialState)
     = Some (mutate (ApproveRequest 12) (handleViewDetails (sample_request ''pending'') initialState))"
    by (simp add: click_def detailControls_def handleViewDetails_def sample_request_def
          initialState_def handleApproveRequest_def)
  have n: "click (Some \<lparr>user_role = ''admin''\<rparr>) ClickApprove
      (handleViewDetails (sample_request ''implemented'') initialState) = None"
    by (simp add: click_def detailControls_def handleViewDetails_def sample_request_def
          initialState_def)
  show ?thesis
    using c n transitions_only_from_pending_or_approved [OF c] by auto
qed

text \<open>
  Claim C2. The approve control is rendered only if the user's role is admin or approver,
  the implement control only if it is admin or implementer (each exactly when moreover the
  status of the selected request is pending, respectively approved); without a user
  neither control is rendered.
\<close>

theorem controls_gated_by_role:
  "(ApproveButton i b \<in> set (detailControls user s))
     = (\<exists>r u. selectedRequest s = Some r \<and> request_status r = ''pending''
              \<and> i = request_id r \<and> b = approvePending s
              \<and> user = Some u \<and> (user_role u = ''admin'' \<or> user_role u = ''approver''))
   \<and> (ImplementButton i b \<in> set (detailControls user s))
     = (\<exists>r u. selectedRequest s = Some r \<and> request_status r = ''approved''
              \<and> i = request_id r \<and> b = implementPending s
              \<and> user = Some u \<and> (user_role u = ''admin'' \<or> user_role u = ''implementer''))
   \<and> detailControls None s = []"
  by (auto simp: detailControls_def split: option.splits)

section \<open>Settled mutations\<close>

lemma settle_resolved_data:
  "map_option entry_data (queryCache (onSuccess m s) k) = map_option entry_data (queryCache s k)"
  by (cases m)
     (auto simp: createRequest_onSuccess_def approveRequest_onSuccess_def
        implementRequest_onSuccess_def toast_def form_reset_def invalidateQueries_def
        split: option.splits)

lemma settle_resolved_invalidated:
  "map_option entry_isInvalidated (queryCache (onSuccess m s) [''/api/change-requests''])
     = map_option (\<lambda>e. True) (queryCache s [''/api/change-requests''])"
  by (cases m)
     (auto simp: createRequest_onSuccess_def approveRequest_onSuccess_def
        implementRequest_onSuccess_def toast_def form_reset_def invalidateQueries_def
        split: option.splits)

lemma queryCache_set_pending [simp]: "queryCache (set_pending m b s) = queryCache s"
  by (cases m) simp_all

lemma apiCalls_set_pending [simp]: "apiCalls (set_pending m b s) = apiCalls s"
  by (cases m) simp_all

lemma toasts_set_pending [simp]: "toasts (set_pending m b s) = toasts s"
  by (cases m) simp_all

text \<open>
  Claim C7. When a create, approve or implement mutation succeeds, the handler marks the
  cached query \<^verbatim>\<open>/api/change-requests\<close> invalidated and writes no data into the cache:
  the data of every entry is what it was, whatever the server's response; it sends nothing.
\<close>

theorem success_invalidates_without_local_write:
  "(\<forall>k. map_option entry_data (queryCache (settle m (Resolved response) s) k)
          = map_option entry_data (queryCache s k))
   \<and> map_option entry_isInvalidated
        (queryCache (settle m (Resolved response) s) [''/api/change-requests''])
       = map_option (\<lambda>e. True) (queryCache s [''/api/change-requests''])
   \<and> apiCalls (settle m (Resolved response) s) = apiCalls s"
proof -
  have "apiCalls (onSuccess m (set_pending m False s)) = apiCalls s"
    by (cases m)
       (simp_all add: createRequest_onSuccess_def approveRequest_onSuccess_def
          implementRequest_onSuccess_def toast_def form_reset_def invalidateQueries_def)
  then show ?thesis
    by (simp add: settle_resolved_data settle_resolved_invalidated)
qed

text \<open>
  Claim C8. When a create, approve or implement mutation fails, the error handler raises
  exactly one notification, whose description is the error's message, and changes nothing
  else of the page state: the cache is neither invalidated nor modified and no request is
  sent again.
\<close>

theorem failure_only_notifies:
  "\<exists>t. onError m message s = s\<lparr>toasts := toasts s @ [t]\<rparr>
       \<and> toast_description t = message
       \<and> toasts (settle m (Rejected message) s) = toasts s @ [t]
       \<and> queryCache (settle m (Rejected message) s) = queryCache s
       \<and> apiCalls (settle m (Rejected message) s) = apiCalls s"
  by (cases m)
     (simp_all add: createRequest_onError_def approveRequest_onError_def
        implementRequest_onError_def toast_def)

section \<open>Validation of the request form\<close>

text \<open>
  Claim C9. For a form of type firewall whose source IP is left empty, validation raises
  no issue other than the ones for an empty title and an empty description; when both are
  filled in it succeeds and the request is sent once, with the empty string as source IP;
  otherwise nothing is sent.
\<close>

theorem empty_sourceIp_passes_validation:
  assumes "well_typed_form f" and "form_type f = ''firewall''" and "form_sourceIp f = Some []"
    and "formValues s = f"
  shows "requestFormSchema f
           = (if form_title f = [] \<or> form_description f = []
              then Inl ((if form_title f = [] then [too_small ''title'' ''Title is required'']
                         else [])
                        @ (if form_description f = []
                           then [too_small ''description'' ''Description is required'']
                           else []))
              else Inr (f\<lparr>form_riskLevel :=
                            Some (case form_riskLevel f of None \<Rightarrow> ''medium'' | Some r \<Rightarrow> r)\<rparr>))
         \<and> (if form_title f = [] \<or> form_description f = []
            then apiCalls (handleSubmit s) = apiCalls s
            else \<exists>data. apiCalls (handleSubmit s)
                          = apiCalls s @ [\<lparr>call_method = ''POST'',
                                           call_url = ''/api/change-requests'',
                                           call_body = FormBody data\<rparr>]
                        \<and> form_sourceIp data = Some [])"
proof -
  have enums: "z_enum [''standard'', ''firewall'', ''server'', ''network'', ''emergency'']
                ''type'' (form_type f) = []"
    "z_enum [''low'', ''medium'', ''high'', ''critical''] ''riskLevel''
        (case form_riskLevel f of None \<Rightarrow> ''medium'' | Some r \<Rightarrow> r) = []"
    "z_enum_optional [''allow'', ''deny'', ''nat'', ''other''] ''action'' (form_action f) = []"
    using assms(1)
    by (auto simp: well_typed_form_def z_enum_def z_enum_optional_def split: option.splits)
  have v: "requestFormSchema f
           = (if form_title f = [] \<or> form_description f = []
              then Inl ((if form_title f = [] then [too_small ''title'' ''Title is required'']
                         else [])
                        @ (if form_description f = []
                           then [too_small ''description'' ''Description is required'']
                           else []))
              else Inr (f\<lparr>form_riskLevel :=
                            Some (case form_riskLevel f of None \<Rightarrow> ''medium'' | Some r \<Rightarrow> r)\<rparr>))"
    unfolding requestFormSchema_def Let_def enums
    by (cases "form_title f"; cases "form_description f") (simp_all add: z_string_min1_def)
  show ?thesis
    using v assms(3,4)
    by (auto simp: handleSubmit_def handleCreateRequest_def mutate_def)
qed

theorem empty_sourceIp_passes_validation_witness:
  "well_typed_form (defaultValues\<lparr>form_description := ''Allow HTTPS''\<rparr>)
   \<and> form_type (defaultValues\<lparr>form_description := ''Allow HTTPS''\<rparr>) = ''firewall''
   \<and> form_sourceIp (defaultValues\<lparr>form_description := ''Allow HTTPS''\<rparr>) = Some []
   \<and> requestFormSchema (defaultValues\<lparr>form_description := ''Allow HTTPS''\<rparr>)
       = Inr (defaultValues\<lparr>form_description := ''Allow HTTPS''\<rparr>)
   \<and> requestFormSchema defaultValues
       = Inl [too_small ''description'' ''Description is required'']"
proof -
  have w: "well_typed_form (defaultValues\<lparr>form_description := ''Allow HTTPS''\<rparr>)"
    by (simp add: well_typed_form_def defaultValues_def)
  have t: "form_type (defaultValues\<lparr>form_description := ''Allow HTTPS''\<rparr>) = ''firewall''"
    by (simp add: defaultValues_def)
  have i: "form_sourceIp (defaultValues\<lparr>form_description := ''Allow HTTPS''\<rparr>) = Some []"
    by (simp add: defaultValues_def)
  have f: "formValues (initialState\<lparr>formValues := defaultValues\<lparr>form_description := ''Allow HTTPS''\<rparr>\<rparr>)
             = defaultValues\<lparr>form_description := ''Allow HTTPS''\<rparr>"
    by simp
  have w0: "well_typed_form defaultValues"
    by (simp add: well_typed_form_def defaultValues_def)
  have t0: "form_type defaultValues = ''firewall''" by (simp add: defaultValues_def)
  have i0: "form_sourceIp defaultValues = Some []" by (simp add: defaultValues_def)
  have f0: "formValues initialState = defaultValues" by (simp add: initialState_def)
  show ?thesis
    using w t i
      empty_sourceIp_passes_validation [OF w t i f, THEN conjunct1]
      empty_sourceIp_passes_validation [OF w0 t0 i0 f0, THEN conjunct1]
    by (simp add: defaultValues_def)
qed


end
